theory Spec2Isabelle
  imports Main
begin

section \<open>SQL values and the three-valued comparison of the engine\<close>

text \<open>
  The module \<^verbatim>\<open>pyani_db.py\<close> is a thin layer over SQLite: every function opens a
  connection, runs one statement (or a script) and returns what the cursor gives back.
  What the functions do is therefore fixed by the SQL text of the module and by the
  engine's rules for that text. A column value is either \<open>NULL\<close> or a value of the
  column's declared type; Python's \<open>None\<close> is bound as \<open>NULL\<close>. Both are written
  \<open>None\<close> here, and \<open>Some v\<close> is a value that is set. A value stored in or compared
  with a \<^verbatim>\<open>TEXT\<close> column is first converted to text by the engine, so an argument meant
  for such a column is given as its text.

  The operator \<open>=\<close> of SQL is three-valued: it is \<open>NULL\<close> as soon as one operand is
  \<open>NULL\<close>. \<open>AND\<close> is false when one side is false, true when both are true and
  \<open>NULL\<close> otherwise. A \<open>WHERE\<close> clause keeps a row only when its condition is true.
\<close>

definition sql_eq :: "'a option \<Rightarrow> 'a option \<Rightarrow> bool option" where
  "sql_eq x y =
     (case x of
        None \<Rightarrow> None
      | Some a \<Rightarrow> (case y of None \<Rightarrow> None | Some b \<Rightarrow> Some (a = b)))"

definition sql_and :: "bool option \<Rightarrow> bool option \<Rightarrow> bool option" where
  "sql_and p q =
     (if p = Some False \<or> q = Some False then Some False
      else if p = Some True \<and> q = Some True then Some True
      else None)"

definition sql_where :: "bool option \<Rightarrow> bool" where
  "sql_where p = (p = Some True)"

section \<open>Tables of the schema\<close>

text \<open>
  One record per table of \<^verbatim>\<open>SQL_CREATEDB\<close>, one field per column. An
  \<^verbatim>\<open>INTEGER PRIMARY KEY\<close> column and a \<^verbatim>\<open>NOT NULL\<close> column always hold a value; every
  other column may be \<open>NULL\<close>. The table \<^verbatim>\<open>runs_genomes\<close> has no integer primary key, so
  the engine keeps a hidden \<open>rowid\<close> for it, which is what \<^verbatim>\<open>cur.lastrowid\<close> reports
  after an insert. The four \<^verbatim>\<open>REAL\<close> statistics of a comparison are carried as values
  of an arbitrary type \<open>'r\<close>: no function of the module inspects them.
\<close>

record genome_row =
  genome_id :: int
  hash :: "string option"
  path :: "string option"
  description :: "string option"

record run_row =
  run_id :: int
  run_method :: "string option"
  cmdline :: "string option"
  date :: "string option"
  status :: "string option"

record run_genome_row =
  rowid :: int
  rg_run_id :: int
  rg_genome_id :: int

record 'r comparison_row =
  query_id :: int
  subject_id :: int
  identity :: "'r option"
  coverage :: "'r option"
  mismatches :: "'r option"
  aligned_length :: "'r option"
  program :: "string option"
  version :: "string option"
  fragsize :: "string option"
  maxmatch :: "string option"

text \<open>
  The state of the database file at a path, as far as the module can see it: each of the
  four tables is absent (\<open>None\<close>) or holds its rows in scan order, each of the two
  indexes exists or not, and the engine's \<^verbatim>\<open>sqlite_sequence\<close> table remembers the largest
  key ever given out for the two \<^verbatim>\<open>AUTOINCREMENT\<close> tables (0 when there is no entry).
\<close>

record 'r db =
  genomes :: "genome_row list option"
  genomes_seq :: int
  runs :: "run_row list option"
  runs_seq :: int
  runs_genomes :: "run_genome_row list option"
  comparisons :: "'r comparison_row list option"
  genomehash_index :: bool
  genomehashpath_index :: bool

datatype error = IntegrityError | OperationalError | TypeError

text \<open>
  The exceptions the functions can raise in the model: \<open>IntegrityError\<close> is
  \<^verbatim>\<open>sqlite3.IntegrityError\<close> (a constraint of the schema is violated),
  \<open>OperationalError\<close> is \<^verbatim>\<open>sqlite3.OperationalError\<close> (the statement names a table that
  does not exist, or creates one that does), \<open>TypeError\<close> is Python's own error for
  subscripting \<open>None\<close>. Failures of the storage itself (an unwritable path, a full disk,
  a locked file, a key space of 64 bits used up) are not part of the model.
\<close>

section \<open>The scripts of \<^verbatim>\<open>create_db\<close>\<close>

datatype table_name = Genomes | Runs | Runs_genomes | Comparisons

datatype index_name = Genomehash_index | Genomehashpath_index

datatype statement =
    DROP_TABLE_IF_EXISTS table_name
  | CREATE_TABLE table_name
  | DROP_INDEX_IF_EXISTS index_name
  | CREATE_INDEX index_name
  | CREATE_UNIQUE_INDEX index_name

text \<open>
  The key of a genome row in the unique index on \<open>(hash, path)\<close>. The engine treats
  \<open>NULL\<close>s in a unique index as distinct from each other, so a row with a \<open>NULL\<close> in
  one of the two columns has no key and never conflicts.
\<close>

definition hashpath_key :: "genome_row \<Rightarrow> (string \<times> string) option" where
  "hashpath_key r =
     (case hash r of
        None \<Rightarrow> None
      | Some h \<Rightarrow> (case path r of None \<Rightarrow> None | Some p \<Rightarrow> Some (h, p)))"

definition hashpath_keys :: "genome_row list \<Rightarrow> (string \<times> string) list" where
  "hashpath_keys rows = List.map_filter hashpath_key rows"

text \<open>
  The two indexes are on \<^verbatim>\<open>genomes\<close>: \<^verbatim>\<open>genomehash_index\<close> on \<open>(hash)\<close> and
  \<^verbatim>\<open>genomehashpath_index\<close> on \<open>(hash, path)\<close>; an index name stands for these columns.
  Dropping a table drops its indexes and its \<^verbatim>\<open>sqlite_sequence\<close> entry with it. Creating
  a table or an index that exists is an error, as is an index on a table that does not
  exist; a unique index cannot be built over rows that already share a key.
\<close>

fun drop_table :: "table_name \<Rightarrow> 'r db \<Rightarrow> 'r db" where
  "drop_table Genomes d =
     d\<lparr>genomes := None, genomes_seq := 0,
       genomehash_index := False, genomehashpath_index := False\<rparr>"
| "drop_table Runs d = d\<lparr>runs := None, runs_seq := 0\<rparr>"
| "drop_table Runs_genomes d = d\<lparr>runs_genomes := None\<rparr>"
| "drop_table Comparisons d = d\<lparr>comparisons := None\<rparr>"

fun create_table :: "table_name \<Rightarrow> 'r db \<Rightarrow> error + 'r db" where
  "create_table Genomes d =
     (if genomes d \<noteq> None then Inl OperationalError else Inr (d\<lparr>genomes := Some []\<rparr>))"
| "create_table Runs d =
     (if runs d \<noteq> None then Inl OperationalError else Inr (d\<lparr>runs := Some []\<rparr>))"
| "create_table Runs_genomes d =
     (if runs_genomes d \<noteq> None then Inl OperationalError
      else Inr (d\<lparr>runs_genomes := Some []\<rparr>))"
| "create_table Comparisons d =
     (if comparisons d \<noteq> None then Inl OperationalError
      else Inr (d\<lparr>comparisons := Some []\<rparr>))"

fun execute_statement :: "statement \<Rightarrow> 'r db \<Rightarrow> error + 'r db" where
  "execute_statement (DROP_TABLE_IF_EXISTS t) d = Inr (drop_table t d)"
| "execute_statement (CREATE_TABLE t) d = create_table t d"
| "execute_statement (DROP_INDEX_IF_EXISTS Genomehash_index) d =
     Inr (d\<lparr>genomehash_index := False\<rparr>)"
| "execute_statement (DROP_INDEX_IF_EXISTS Genomehashpath_index) d =
     Inr (d\<lparr>genomehashpath_index := False\<rparr>)"
| "execute_statement (CREATE_INDEX Genomehash_index) d =
     (if genomes d = None \<or> genomehash_index d then Inl OperationalError
      else Inr (d\<lparr>genomehash_index := True\<rparr>))"
| "execute_statement (CREATE_INDEX Genomehashpath_index) d =
     (if genomes d = None \<or> genomehashpath_index d then Inl OperationalError
      else Inr (d\<lparr>genomehashpath_index := True\<rparr>))"
| "execute_statement (CREATE_UNIQUE_INDEX Genomehash_index) d =
     (case genomes d of
        None \<Rightarrow> Inl OperationalError
      | Some rows \<Rightarrow>
          if genomehash_index d then Inl OperationalError
          else if \<not> distinct (List.map_filter hash rows) then Inl IntegrityError
          else Inr (d\<lparr>genomehash_index := True\<rparr>))"
| "execute_statement (CREATE_UNIQUE_INDEX Genomehashpath_index) d =
     (case genomes d of
        None \<Rightarrow> Inl OperationalError
      | Some rows \<Rightarrow>
          if genomehashpath_index d then Inl OperationalError
          else if \<not> distinct (hashpath_keys rows) then Inl IntegrityError
          else Inr (d\<lparr>genomehashpath_index := True\<rparr>))"

text \<open>\<^verbatim>\<open>cur.executescript\<close> runs the statements in order and stops at the first error.\<close>

fun executescript :: "statement list \<Rightarrow> 'r db \<Rightarrow> error + 'r db" where
  "executescript [] d = Inr d"
| "executescript (s # ss) d =
     (case execute_statement s d of Inl e \<Rightarrow> Inl e | Inr d' \<Rightarrow> executescript ss d')"

definition SQL_CREATEDB :: "statement list" where
  "SQL_CREATEDB =
     [DROP_TABLE_IF_EXISTS Genomes, CREATE_TABLE Genomes,
      DROP_TABLE_IF_EXISTS Runs, CREATE_TABLE Runs,
      DROP_TABLE_IF_EXISTS Runs_genomes, CREATE_TABLE Runs_genomes,
      DROP_TABLE_IF_EXISTS Comparisons, CREATE_TABLE Comparisons]"

definition SQL_INDEXGENOMEHASH :: "statement list" where
  "SQL_INDEXGENOMEHASH =
     [DROP_INDEX_IF_EXISTS Genomehash_index, CREATE_INDEX Genomehash_index,
      DROP_INDEX_IF_EXISTS Genomehashpath_index, CREATE_UNIQUE_INDEX Genomehashpath_index]"

definition create_db :: "'r db \<Rightarrow> error + 'r db" where
  "create_db d =
     (case executescript SQL_CREATEDB d of
        Inl e \<Rightarrow> Inl e
      | Inr d' \<Rightarrow> executescript SQL_INDEXGENOMEHASH d')"

section \<open>The statements behind the functions\<close>

text \<open>
  An insert into an \<^verbatim>\<open>AUTOINCREMENT\<close> table that names no key takes one more than the
  largest key the table has ever held; an insert into a table with a hidden \<open>rowid\<close>
  takes 1 when the table is empty and one more than the largest \<open>rowid\<close> otherwise.
\<close>

definition autoincrement_rowid :: "int \<Rightarrow> int list \<Rightarrow> int" where
  "autoincrement_rowid seq ids = foldr max ids seq + 1"

definition next_rowid :: "int list \<Rightarrow> int" where
  "next_rowid ids = (case ids of [] \<Rightarrow> 1 | i # is \<Rightarrow> foldr max is i + 1)"

text \<open>
  \<^verbatim>\<open>PRAGMA foreign_keys\<close> is off on every new connection unless the program turns it on.
  The module opens a new connection in each function and never issues the pragma, so the
  two \<^verbatim>\<open>FOREIGN KEY\<close> clauses of \<^verbatim>\<open>runs_genomes\<close> are parsed and not enforced.
\<close>

definition foreign_keys :: bool where
  "foreign_keys = False"


definition SQL_ADDGENOME ::
  "'r db \<Rightarrow> string option \<Rightarrow> string option \<Rightarrow> string option \<Rightarrow> error + ('r db \<times> int)" where
  "SQL_ADDGENOME d h p ds =
     (case genomes d of
        None \<Rightarrow> Inl OperationalError
      | Some rows \<Rightarrow>
          let gid = autoincrement_rowid (genomes_seq d) (map genome_id rows);
              new = \<lparr>genome_id = gid, hash = h, path = p, description = ds\<rparr>
          in if genomehashpath_index d
                     \<and> (case hashpath_key new of
                           None \<Rightarrow> False
                         | Some k \<Rightarrow> k \<in> set (hashpath_keys rows))
             then Inl IntegrityError
             else Inr (d\<lparr>genomes := Some (rows @ [new]), genomes_seq := gid\<rparr>, gid))"

text \<open>The key of an association row under \<^verbatim>\<open>PRIMARY KEY (run_id, genome_id)\<close>.\<close>

definition run_genome_key :: "run_genome_row \<Rightarrow> int \<times> int" where
  "run_genome_key x = (rg_run_id x, rg_genome_id x)"

definition SQL_ADDRUNGENOME ::
  "'r db \<Rightarrow> int option \<Rightarrow> int option \<Rightarrow> error + ('r db \<times> int)" where
  "SQL_ADDRUNGENOME d r g =
     (case runs_genomes d of
        None \<Rightarrow> Inl OperationalError
      | Some rows \<Rightarrow>
          (case r of
             None \<Rightarrow> Inl IntegrityError
           | Some rid \<Rightarrow>
               (case g of
                  None \<Rightarrow> Inl IntegrityError
                | Some gid \<Rightarrow>
                    if (rid, gid) \<in> set (map run_genome_key rows) then Inl IntegrityError
                    else if foreign_keys
                            \<and> \<not> (rid \<in> set (map run_id (case runs d of None \<Rightarrow> [] | Some rs \<Rightarrow> rs))
                                 \<and> gid \<in> set (map genome_id
                                               (case genomes d of None \<Rightarrow> [] | Some gs \<Rightarrow> gs)))
                    then Inl IntegrityError
                    else
                      let k = next_rowid (map rowid rows)
                      in Inr (d\<lparr>runs_genomes :=
                                  Some (rows @ [\<lparr>rowid = k, rg_run_id = rid,
                                                 rg_genome_id = gid\<rparr>])\<rparr>, k))))"

definition SQL_GETGENOMEHASH :: "'r db \<Rightarrow> string option \<Rightarrow> error + genome_row list" where
  "SQL_GETGENOMEHASH d h =
     (case genomes d of
        None \<Rightarrow> Inl OperationalError
      | Some rows \<Rightarrow> Inr (filter (\<lambda>x. sql_where (sql_eq (hash x) h)) rows))"

definition SQL_GETGENOMEPATH :: "'r db \<Rightarrow> int option \<Rightarrow> error + string option list" where
  "SQL_GETGENOMEPATH d g =
     (case genomes d of
        None \<Rightarrow> Inl OperationalError
      | Some rows \<Rightarrow>
          Inr (map path (filter (\<lambda>x. sql_where (sql_eq (Some (genome_id x)) g)) rows)))"

definition SQL_GETGENOMEHASHPATH ::
  "'r db \<Rightarrow> string option \<Rightarrow> string option \<Rightarrow> error + genome_row list" where
  "SQL_GETGENOMEHASHPATH d h p =
     (case genomes d of
        None \<Rightarrow> Inl OperationalError
      | Some rows \<Rightarrow>
          Inr (filter (\<lambda>x. sql_where (sql_and (sql_eq (hash x) h) (sql_eq (path x) p))) rows))"


definition SQL_GETCOMPARISON ::
  "'r db \<Rightarrow> int option \<Rightarrow> int option \<Rightarrow> string option \<Rightarrow> string option
     \<Rightarrow> string option \<Rightarrow> string option \<Rightarrow> error + 'r comparison_row list" where
  "SQL_GETCOMPARISON d q s pr ve fs mm =
     (case comparisons d of
        None \<Rightarrow> Inl OperationalError
      | Some rows \<Rightarrow>
          Inr (filter
                 (\<lambda>x. sql_where
                         (sql_and (sql_eq (Some (query_id x)) q)
                         (sql_and (sql_eq (Some (subject_id x)) s)
                         (sql_and (sql_eq (program x) pr)
                         (sql_and (sql_eq (version x) ve)
                         (sql_and (sql_eq (fragsize x) fs)
                                  (sql_eq (maxmatch x) mm)))))))
                 rows))"

text \<open>\<^verbatim>\<open>cur.fetchone()\<close> gives the first row of the result, or \<open>None\<close> when there is none.\<close>

definition fetchone :: "'a list \<Rightarrow> 'a option" where
  "fetchone xs = (case xs of [] \<Rightarrow> None | x # _ \<Rightarrow> Some x)"

section \<open>The functions of the module\<close>


definition add_genome ::
  "'r db \<Rightarrow> string option \<Rightarrow> string option \<Rightarrow> string option \<Rightarrow> error + ('r db \<times> int)" where
  "add_genome dbpath hash' filepath desc = SQL_ADDGENOME dbpath hash' filepath desc"

definition add_genome_to_run ::
  "'r db \<Rightarrow> int option \<Rightarrow> int option \<Rightarrow> error + ('r db \<times> int)" where
  "add_genome_to_run dbpath run_id' genome_id' = SQL_ADDRUNGENOME dbpath run_id' genome_id'"

definition get_genome ::
  "'r db \<Rightarrow> string option \<Rightarrow> string option \<Rightarrow> error + genome_row list" where
  "get_genome dbpath hash' path' =
     (if path' = None then SQL_GETGENOMEHASH dbpath hash'
      else SQL_GETGENOMEHASHPATH dbpath hash' path')"

definition get_genome_path :: "'r db \<Rightarrow> int option \<Rightarrow> error + string option" where
  "get_genome_path dbpath genome_id' =
     (case SQL_GETGENOMEPATH dbpath genome_id' of
        Inl e \<Rightarrow> Inl e
      | Inr rows \<Rightarrow>
          (case fetchone rows of None \<Rightarrow> Inl TypeError | Some result \<Rightarrow> Inr result))"


definition get_comparison ::
  "'r db \<Rightarrow> int option \<Rightarrow> int option \<Rightarrow> string option \<Rightarrow> string option
     \<Rightarrow> string option \<Rightarrow> string option \<Rightarrow> error + 'r comparison_row option" where
  "get_comparison dbpath subj_id targ_id program' version' fragsize' maxmatch' =
     (case SQL_GETCOMPARISON dbpath subj_id targ_id program' version' fragsize' maxmatch' of
        Inl e \<Rightarrow> Inl e
      | Inr rows \<Rightarrow> Inr (fetchone rows))"

section \<open>Constraints of the schema\<close>

text \<open>
  The key of a comparison row under \<^verbatim>\<open>PRIMARY KEY (query_id, subject_id)\<close>, as
  \<^verbatim>\<open>SQL_CREATEDB\<close> declares it.
\<close>

definition comparison_key :: "'r comparison_row \<Rightarrow> int \<times> int" where
  "comparison_key x = (query_id x, subject_id x)"

text \<open>
  A store is a database on which \<^verbatim>\<open>create_db\<close> has been run and whose rows satisfy the
  constraints the schema declares and the engine enforces: the four tables and the two
  indexes exist, the primary keys are unique, and no two genome rows share a key of the
  unique index on \<open>(hash, path)\<close>.
\<close>

definition store :: "'r db \<Rightarrow> bool" where
  "store d =
     (case genomes d of
        None \<Rightarrow> False
      | Some gs \<Rightarrow>
     (case runs d of
        None \<Rightarrow> False
      | Some rs \<Rightarrow>
     (case runs_genomes d of
        None \<Rightarrow> False
      | Some rgs \<Rightarrow>
     (case comparisons d of
        None \<Rightarrow> False
      | Some cs \<Rightarrow>
          genomehash_index d \<and> genomehashpath_index d
          \<and> distinct (map genome_id gs) \<and> distinct (hashpath_keys gs)
          \<and> distinct (map run_id rs)
          \<and> distinct (map rowid rgs) \<and> distinct (map run_genome_key rgs)
          \<and> distinct (map comparison_key cs)))))"

text \<open>The database \<^verbatim>\<open>create_db\<close> leaves behind: four empty tables and the two indexes.\<close>

definition empty_db :: "'r db" where
  "empty_db =
     \<lparr>genomes = Some [], genomes_seq = 0, runs = Some [], runs_seq = 0,
      runs_genomes = Some [], comparisons = Some [],
      genomehash_index = True, genomehashpath_index = True\<rparr>"

section \<open>Sequences of calls\<close>





section \<open>An example store\<close>

text \<open>
  The store of the scenario in the specification, a little further on: the same content
  recorded at two paths, one run over both genomes, and two comparisons. The comparison
  made with NUCmer has neither \<^verbatim>\<open>fragsize\<close> nor \<^verbatim>\<open>maxmatch\<close> set; the one made with BLAST
  has a \<^verbatim>\<open>fragsize\<close> and no \<^verbatim>\<open>maxmatch\<close>; the comparison of the second genome with
  itself has both. \<open>self_comparison_500\<close> is that comparison made with another
  \<^verbatim>\<open>fragsize\<close>; it is not in the store.
\<close>

definition genome_one :: genome_row where
  "genome_one =
     \<lparr>genome_id = 1, hash = Some ''abc123'', path = Some ''/data/g1.fasta'',
      description = Some ''genome one''\<rparr>"

definition genome_two :: genome_row where
  "genome_two =
     \<lparr>genome_id = 2, hash = Some ''abc123'', path = Some ''/data/g2.fasta'',
      description = Some ''genome two''\<rparr>"

definition nucmer_comparison :: "int comparison_row" where
  "nucmer_comparison =
     \<lparr>query_id = 1, subject_id = 2, identity = Some 1, coverage = Some 1,
      mismatches = Some 0, aligned_length = Some 4000,
      program = Some ''nucmer'', version = Some ''3.1'',
      fragsize = None, maxmatch = None\<rparr>"

definition blast_comparison :: "int comparison_row" where
  "blast_comparison =
     \<lparr>query_id = 2, subject_id = 1, identity = Some 1, coverage = Some 1,
      mismatches = Some 0, aligned_length = Some 4000,
      program = Some ''blastn'', version = Some ''2.2.31'',
      fragsize = Some ''1020'', maxmatch = None\<rparr>"

definition self_comparison :: "int comparison_row" where
  "self_comparison =
     \<lparr>query_id = 2, subject_id = 2, identity = Some 1, coverage = Some 1,
      mismatches = Some 0, aligned_length = Some 5000,
      program = Some ''blastn'', version = Some ''2.2.31'',
      fragsize = Some ''1020'', maxmatch = Some ''0''\<rparr>"

definition self_comparison_500 :: "int comparison_row" where
  "self_comparison_500 =
     \<lparr>query_id = 2, subject_id = 2, identity = Some 1, coverage = Some 1,
      mismatches = Some 0, aligned_length = Some 5000,
      program = Some ''blastn'', version = Some ''2.2.31'',
      fragsize = Some ''500'', maxmatch = Some ''0''\<rparr>"

definition example_store :: "int db" where
  "example_store =
     \<lparr>genomes = Some [genome_one, genome_two], genomes_seq = 2,
      runs = Some [\<lparr>run_id = 1, run_method = Some ''ANIm'', cmdline = Some ''pyani anim'',
                    date = Some ''2017-01-01'', status = Some ''started''\<rparr>],
      runs_seq = 1,
      runs_genomes = Some [\<lparr>rowid = 1, rg_run_id = 1, rg_genome_id = 1\<rparr>,
                           \<lparr>rowid = 2, rg_run_id = 1, rg_genome_id = 2\<rparr>],
      comparisons = Some [nucmer_comparison, blast_comparison, self_comparison],
      genomehash_index = True, genomehashpath_index = True\<rparr>"


section \<open>Facts about the engine's rules\<close>

subsection \<open>A fresh database\<close>

lemma create_db_empty: "create_db d = Inr empty_db"
  by (simp add: create_db_def SQL_CREATEDB_def SQL_INDEXGENOMEHASH_def empty_db_def hashpath_keys_def)


subsection \<open>A new key is not one in use\<close>

lemma foldr_max_ge: "x \<in> set xs \<Longrightarrow> x \<le> foldr max xs (s::int)"
  by (induction xs) auto


lemma autoincrement_rowid_fresh: "autoincrement_rowid s ids \<notin> set ids"
  using foldr_max_ge [of "autoincrement_rowid s ids" ids s]
  by (auto simp: autoincrement_rowid_def)


subsection \<open>Keys of the unique index and selection by a key\<close>

lemma set_hashpath_keys:
  "set (hashpath_keys rows) = {(h, p). \<exists>x \<in> set rows. hash x = Some h \<and> path x = Some p}"
  by (induction rows) (auto simp: hashpath_keys_def hashpath_key_def split: option.splits)


lemma filter_distinct_key:
  "distinct (map f xs) \<Longrightarrow> x \<in> set xs \<Longrightarrow> filter (\<lambda>y. f y = f x) xs = [x]"
proof (induction xs)
  case Nil
  then show ?case by simp
next
  case (Cons a xs)
  show ?case
  proof (cases "a = x")
    case True
    have "f x \<notin> f ` set xs"
      using Cons.prems(1) True by simp
    then have "\<forall>y \<in> set xs. f y \<noteq> f x"
      by (metis imageI)
    then have "filter (\<lambda>y. f y = f x) xs = []"
      by (simp add: filter_empty_conv)
    with True show ?thesis by simp
  next
    case False
    with Cons.prems have "x \<in> set xs" and "f a \<noteq> f x" by auto
    with Cons show ?thesis by simp
  qed
qed

subsection \<open>Conditions a \<^verbatim>\<open>WHERE\<close> clause accepts\<close>

lemma sql_where_eq [simp]: "sql_where (sql_eq x y) \<longleftrightarrow> (\<exists>v. x = Some v \<and> y = Some v)"
  by (auto simp: sql_where_def sql_eq_def split: option.splits)

lemma sql_where_and [simp]: "sql_where (sql_and p q) \<longleftrightarrow> sql_where p \<and> sql_where q"
  by (auto simp: sql_where_def sql_and_def)

subsection \<open>An insert leaves a store a store\<close>









subsection \<open>What an insert adds and what a lookup selects\<close>

lemma add_genome_rows:
  assumes "add_genome d h p ds = Inr (d', gid)" and "genomes d = Some rows"
  shows "genomes d' = Some (rows @ [\<lparr>genome_id = gid, hash = h, path = p, description = ds\<rparr>])"
    and "gid \<notin> set (map genome_id rows)"
  using assms autoincrement_rowid_fresh [of "genomes_seq d" "map genome_id rows"]
  by (auto simp: add_genome_def SQL_ADDGENOME_def Let_def split: option.splits if_splits)

lemma get_genome_hashpath_unique:
  assumes "genomes d = Some rows" and "distinct (hashpath_keys rows)"
    and "x \<in> set rows" and "hash x = Some h" and "path x = Some p"
  shows "get_genome d (Some h) (Some p) = Inr [x]"
proof -
  have k: "hashpath_key y = Some (h, p) \<longleftrightarrow> hash y = Some h \<and> path y = Some p" for y
    by (auto simp: hashpath_key_def split: option.splits)
  have "filter (\<lambda>y. hash y = Some h \<and> path y = Some p) rows = [x]"
    using assms(2-5)
  proof (induction rows)
    case Nil
    then show ?case by simp
  next
    case (Cons a rows)
    show ?case
    proof (cases "a = x")
      case True
      have "(h, p) \<notin> set (hashpath_keys rows)"
        using Cons.prems True by (simp add: hashpath_keys_def hashpath_key_def)
      then have "\<forall>y \<in> set rows. \<not> (hash y = Some h \<and> path y = Some p)"
        by (auto simp: set_hashpath_keys)
      then have "filter (\<lambda>y. hash y = Some h \<and> path y = Some p) rows = []"
        by (simp add: filter_empty_conv)
      with True Cons.prems show ?thesis by simp
    next
      case False
      with Cons.prems have in_rows: "x \<in> set rows" by simp
      then have "(h, p) \<in> set (hashpath_keys rows)"
        using Cons.prems by (auto simp: set_hashpath_keys)
      then have "hashpath_key a \<noteq> Some (h, p)"
        using Cons.prems(1) by (auto simp: hashpath_keys_def split: option.splits)
      then have "\<not> (hash a = Some h \<and> path a = Some p)"
        by (simp add: k)
      moreover have "distinct (hashpath_keys rows)"
        using Cons.prems(1) by (auto simp: hashpath_keys_def split: option.splits)
      ultimately show ?thesis
        using Cons.IH in_rows Cons.prems by simp
    qed
  qed
  then show ?thesis
    using assms(1) by (simp add: get_genome_def SQL_GETGENOMEHASHPATH_def)
qed

lemma get_comparison_rows:
  assumes "comparisons d = Some rows"
  shows "get_comparison d q s pr ve fs mm
     = Inr (fetchone (filter (\<lambda>x. Some (query_id x) = q \<and> Some (subject_id x) = s
                                \<and> program x = pr \<and> pr \<noteq> None \<and> version x = ve \<and> ve \<noteq> None
                                \<and> fragsize x = fs \<and> fs \<noteq> None
                                \<and> maxmatch x = mm \<and> mm \<noteq> None) rows))"
proof -
  have "(\<lambda>x. sql_where
                         (sql_and (sql_eq (Some (query_id x)) q)
                         (sql_and (sql_eq (Some (subject_id x)) s)
                         (sql_and (sql_eq (program x) pr)
                         (sql_and (sql_eq (version x) ve)
                         (sql_and (sql_eq (fragsize x) fs)
                                  (sql_eq (maxmatch x) mm)))))))
    = (\<lambda>x::'a comparison_row. Some (query_id x) = q \<and> Some (subject_id x) = s
                                \<and> program x = pr \<and> pr \<noteq> None \<and> version x = ve \<and> ve \<noteq> None
                                \<and> fragsize x = fs \<and> fs \<noteq> None
                                \<and> maxmatch x = mm \<and> mm \<noteq> None)"
    by (rule ext) auto
  then show ?thesis
    using assms by (simp add: get_comparison_def SQL_GETCOMPARISON_def)
qed

lemma fetchone_filter_None: "(\<forall>x \<in> set xs. \<not> P x) \<Longrightarrow> fetchone (filter P xs) = None"
  by (simp add: fetchone_def filter_empty_conv [THEN iffD2])

lemma fetchone_filter_Some: "fetchone (filter P xs) = Some x \<Longrightarrow> x \<in> set xs \<and> P x"
proof -
  assume "fetchone (filter P xs) = Some x"
  then obtain ys where "filter P xs = x # ys"
    by (auto simp: fetchone_def split: list.splits)
  then have "x \<in> set (filter P xs)"
    by (simp only: list.set_intros)
  then show ?thesis by simp
qed

lemma filter_distinct_key_sym:
  "distinct (map f xs) \<Longrightarrow> x \<in> set xs \<Longrightarrow> filter (\<lambda>y. f x = f y) xs = [x]"
  using filter_distinct_key [of f xs x] by (simp add: eq_commute [of "f x"])

section \<open>The example store\<close>

text \<open>
  The example store satisfies the constraints of the schema, and its genomes, its run and
  its associations are the rows the example calls leave in a fresh store. No function of
  the module writes to \<^verbatim>\<open>comparisons\<close>.
\<close>

lemma store_example_store: "store example_store"
  by (simp add: store_def example_store_def genome_one_def genome_two_def hashpath_keys_def
      hashpath_key_def run_genome_key_def comparison_key_def nucmer_comparison_def
      blast_comparison_def self_comparison_def)


section \<open>Schema creation\<close>

text \<open>
  Claim C9. \<^verbatim>\<open>create_db\<close> is idempotent by reset: whatever the database at the path held
  before, one call leaves the four tables empty with both indexes in place, and a second
  call in succession leaves exactly the same database. Rows that were in the tables are
  gone after each call.
\<close>

theorem create_db_idempotent_by_reset:
  "create_db d = Inr empty_db \<and> create_db (empty_db :: 'r db) = Inr empty_db
   \<and> genomes (empty_db :: 'r db) = Some [] \<and> runs (empty_db :: 'r db) = Some []
   \<and> runs_genomes (empty_db :: 'r db) = Some [] \<and> comparisons (empty_db :: 'r db) = Some []
   \<and> genomehash_index (empty_db :: 'r db) \<and> genomehashpath_index (empty_db :: 'r db)"
  by (simp add: create_db_empty) (simp add: empty_db_def)

section \<open>Genomes\<close>

text \<open>
  Claim C4. On a fresh store, for every hash \<open>h\<close>, path \<open>p\<close> and description \<open>ds\<close>,
  \<^verbatim>\<open>add_genome(h, p, ds)\<close> succeeds, and \<^verbatim>\<open>get_genome(h, p)\<close> on the resulting store
  returns exactly one row, whose hash, path and description are \<open>h\<close>, \<open>p\<close> and \<open>ds\<close>
  and whose \<^verbatim>\<open>genome_id\<close> is the value \<^verbatim>\<open>add_genome\<close> returned. This holds as well
  when the path is left out of both calls.
\<close>

theorem add_genome_get_genome_round_trip:
  assumes "create_db d0 = Inr s"
  shows "\<exists>s' gid. add_genome s (Some h) p ds = Inr (s', gid)
           \<and> get_genome s' (Some h) p
               = Inr [\<lparr>genome_id = gid, hash = Some h, path = p, description = ds\<rparr>]"
proof -
  have s: "s = empty_db"
    using assms by (simp add: create_db_empty)
  have insert: "add_genome s (Some h) p ds
      = Inr (s\<lparr>genomes := Some [\<lparr>genome_id = 1, hash = Some h, path = p, description = ds\<rparr>],
               genomes_seq := 1\<rparr>, 1)"
    by (simp add: s empty_db_def add_genome_def SQL_ADDGENOME_def Let_def hashpath_keys_def
        autoincrement_rowid_def split: option.splits)
  have lookup: "get_genome
        (s\<lparr>genomes := Some [\<lparr>genome_id = 1, hash = Some h, path = p, description = ds\<rparr>],
           genomes_seq := 1\<rparr>) (Some h) p
      = Inr [\<lparr>genome_id = 1, hash = Some h, path = p, description = ds\<rparr>]"
    by (cases p) (simp_all add: get_genome_def SQL_GETGENOMEHASH_def SQL_GETGENOMEHASHPATH_def)
  from insert lookup show ?thesis
    by blast
qed

theorem add_genome_get_genome_round_trip_witness:
  "create_db example_store = Inr empty_db
   \<and> (\<exists>s' gid. add_genome (empty_db :: int db) (Some ''abc123'') (Some ''/data/g1.fasta'')
                   (Some ''genome one'') = Inr (s', gid)
        \<and> get_genome s' (Some ''abc123'') (Some ''/data/g1.fasta'')
            = Inr [\<lparr>genome_id = gid, hash = Some ''abc123'', path = Some ''/data/g1.fasta'',
                     description = Some ''genome one''\<rparr>])"
proof -
  have fresh: "create_db example_store = Inr empty_db"
    by (rule create_db_empty)
  from add_genome_get_genome_round_trip [OF fresh,
      where h = "''abc123''" and p = "Some ''/data/g1.fasta''" and ds = "Some ''genome one''"]
    fresh
  show ?thesis
    by simp
qed

text \<open>
  Claim C3. In every store, \<^verbatim>\<open>add_genome\<close> with a hash and a path that a stored row
  already has fails with the uniqueness violation (\<open>IntegrityError\<close>); with a hash and a
  path that no stored row has together, such as a stored hash with a new path, it
  succeeds, appends the row and returns a \<^verbatim>\<open>genome_id\<close> that no stored row has.
\<close>

theorem add_genome_hash_path_unique:
  assumes "store d" and "genomes d = Some rows"
  shows "((\<exists>x \<in> set rows. hash x = Some h \<and> path x = Some p)
            \<longrightarrow> add_genome d (Some h) (Some p) ds = Inl IntegrityError)
       \<and> ((\<forall>x \<in> set rows. hash x = Some h \<longrightarrow> path x \<noteq> Some p')
            \<longrightarrow> (\<exists>d' gid. add_genome d (Some h) (Some p') ds' = Inr (d', gid)
                   \<and> gid \<notin> set (map genome_id rows)
                   \<and> genomes d'
                       = Some (rows @ [\<lparr>genome_id = gid, hash = Some h, path = Some p',
                                        description = ds'\<rparr>])))"
proof (intro conjI impI)
  assume "\<exists>x \<in> set rows. hash x = Some h \<and> path x = Some p"
  then have "(h, p) \<in> set (hashpath_keys rows)"
    by (auto simp: set_hashpath_keys)
  then show "add_genome d (Some h) (Some p) ds = Inl IntegrityError"
    using assms
    by (auto simp: add_genome_def SQL_ADDGENOME_def Let_def hashpath_key_def store_def
        split: option.splits)
next
  assume "\<forall>x \<in> set rows. hash x = Some h \<longrightarrow> path x \<noteq> Some p'"
  then have "(h, p') \<notin> set (hashpath_keys rows)"
    by (auto simp: set_hashpath_keys)
  then obtain d' gid where a: "add_genome d (Some h) (Some p') ds' = Inr (d', gid)"
    using assms by (simp add: add_genome_def SQL_ADDGENOME_def Let_def hashpath_key_def)
  from add_genome_rows [OF a assms(2)] a
  show "\<exists>d' gid. add_genome d (Some h) (Some p') ds' = Inr (d', gid)
          \<and> gid \<notin> set (map genome_id rows)
          \<and> genomes d' = Some (rows @ [\<lparr>genome_id = gid, hash = Some h, path = Some p',
                                        description = ds'\<rparr>])"
    by blast
qed

theorem add_genome_hash_path_unique_witness:
  "store example_store \<and> genomes example_store = Some [genome_one, genome_two]
   \<and> add_genome example_store (Some ''abc123'') (Some ''/data/g1.fasta'') (Some ''dup'')
       = Inl IntegrityError
   \<and> (\<exists>d' gid. add_genome example_store (Some ''abc123'') (Some ''/data/g3.fasta'')
                   (Some ''genome three'') = Inr (d', gid)
        \<and> gid \<noteq> 1 \<and> gid \<noteq> 2
        \<and> genomes d'
            = Some [genome_one, genome_two,
                    \<lparr>genome_id = gid, hash = Some ''abc123'', path = Some ''/data/g3.fasta'',
                     description = Some ''genome three''\<rparr>])"
proof -
  have g: "genomes example_store = Some [genome_one, genome_two]"
    by (simp add: example_store_def)
  from add_genome_hash_path_unique [OF store_example_store g,
      where h = "''abc123''" and p = "''/data/g1.fasta''" and p' = "''/data/g3.fasta''"
        and ds = "Some ''dup''" and ds' = "Some ''genome three''"]
    g store_example_store
  show ?thesis
    by (simp add: genome_one_def genome_two_def)
qed

text \<open>
  Claim C8. In every store, \<^verbatim>\<open>get_genome_path\<close> returns the path recorded in the row of
  the given \<^verbatim>\<open>genome_id\<close> when there is such a row, and fails when there is none: the
  cursor has no row, \<^verbatim>\<open>fetchone\<close> gives \<open>None\<close> and subscripting it raises
  \<open>TypeError\<close>. No null or default path is returned for an unknown \<^verbatim>\<open>genome_id\<close>.
\<close>

theorem get_genome_path_known_or_fails:
  assumes "store d" and "genomes d = Some rows"
  shows "(\<forall>x \<in> set rows. get_genome_path d (Some (genome_id x)) = Inr (path x))
       \<and> (g \<notin> set (map genome_id rows) \<longrightarrow> get_genome_path d (Some g) = Inl TypeError)"
proof (intro conjI ballI impI)
  fix x
  assume x: "x \<in> set rows"
  have "distinct (map genome_id rows)"
    using assms by (auto simp: store_def split: option.splits)
  from filter_distinct_key_sym [OF this x]
  show "get_genome_path d (Some (genome_id x)) = Inr (path x)"
    using assms(2) by (simp add: get_genome_path_def SQL_GETGENOMEPATH_def fetchone_def)
next
  assume "g \<notin> set (map genome_id rows)"
  then have "filter (\<lambda>y. g = genome_id y) rows = []"
    by (auto simp: filter_empty_conv)
  then show "get_genome_path d (Some g) = Inl TypeError"
    using assms(2) by (simp add: get_genome_path_def SQL_GETGENOMEPATH_def fetchone_def)
qed

theorem get_genome_path_known_or_fails_witness:
  "store example_store \<and> genomes example_store = Some [genome_one, genome_two]
   \<and> get_genome_path example_store (Some 2) = Inr (Some ''/data/g2.fasta'')
   \<and> get_genome_path example_store (Some 3) = Inl TypeError"
proof -
  have g: "genomes example_store = Some [genome_one, genome_two]"
    by (simp add: example_store_def)
  from get_genome_path_known_or_fails [OF store_example_store g, of 3] g store_example_store
  show ?thesis
    by (simp add: genome_one_def genome_two_def)
qed

section \<open>Comparisons\<close>

text \<open>
  Claim C7. In every store, when no stored comparison row has the six key columns equal
  to the six arguments, \<^verbatim>\<open>get_comparison\<close> returns \<open>None\<close>, the absent-value indicator:
  it raises nothing and returns no row.
\<close>

theorem get_comparison_not_found:
  assumes "store d" and "comparisons d = Some rows"
    and "\<forall>x \<in> set rows. \<not> (Some (query_id x) = q \<and> Some (subject_id x) = s
                             \<and> program x = pr \<and> version x = ve
                             \<and> fragsize x = fs \<and> maxmatch x = mm)"
  shows "get_comparison d q s pr ve fs mm = Inr None"
proof -
  have "fetchone (filter (\<lambda>x. Some (query_id x) = q \<and> Some (subject_id x) = s
                                \<and> program x = pr \<and> pr \<noteq> None \<and> version x = ve \<and> ve \<noteq> None
                                \<and> fragsize x = fs \<and> fs \<noteq> None
                                \<and> maxmatch x = mm \<and> mm \<noteq> None) rows) = None"
    using assms(3) by (intro fetchone_filter_None) blast
  then show ?thesis
    by (simp only: get_comparison_rows [OF assms(2)])
qed

theorem get_comparison_not_found_witness:
  "store example_store
   \<and> comparisons example_store = Some [nucmer_comparison, blast_comparison, self_comparison]
   \<and> get_comparison example_store (Some 1) (Some 2) (Some ''nucmer'') (Some ''3.2'') None None
       = Inr None"
proof -
  have c: "comparisons example_store
             = Some [nucmer_comparison, blast_comparison, self_comparison]"
    by (simp add: example_store_def)
  have "\<forall>x \<in> set [nucmer_comparison, blast_comparison, self_comparison].
          \<not> (Some (query_id x) = Some 1 \<and> Some (subject_id x) = Some 2
              \<and> program x = Some ''nucmer'' \<and> version x = Some ''3.2''
              \<and> fragsize x = None \<and> maxmatch x = None)"
    by (simp add: nucmer_comparison_def blast_comparison_def self_comparison_def)
  from get_comparison_not_found [OF store_example_store c this] c store_example_store
  show ?thesis by simp
qed

text \<open>
  A lookup in which one of \<^verbatim>\<open>program\<close>, \<^verbatim>\<open>version\<close>, \<^verbatim>\<open>fragsize\<close> and \<^verbatim>\<open>maxmatch\<close> is
  \<open>None\<close> finds nothing in any database, since \<open>column = NULL\<close> is never true. A row in
  which the four columns are set is found under its own values, with the first genome
  argument matched against \<^verbatim>\<open>query_id\<close> and the second against \<^verbatim>\<open>subject_id\<close>, and is
  not found with the two swapped.
\<close>

lemma distinct_map_eq:
  assumes "distinct (map f xs)" and "x \<in> set xs" and "y \<in> set xs" and "f x = f y"
  shows "x = y"
proof -
  have "inj_on f (set xs)"
    using assms(1) by (simp add: distinct_map)
  with assms(2-4) show ?thesis
    by (auto dest: inj_onD)
qed

lemma get_comparison_unset_never_matches:
  assumes "comparisons d = Some rows" and "pr = None \<or> ve = None \<or> fs = None \<or> mm = None"
  shows "get_comparison d q s pr ve fs mm = Inr None"
proof -
  have "fetchone (filter (\<lambda>x. Some (query_id x) = q \<and> Some (subject_id x) = s
                                \<and> program x = pr \<and> pr \<noteq> None \<and> version x = ve \<and> ve \<noteq> None
                                \<and> fragsize x = fs \<and> fs \<noteq> None
                                \<and> maxmatch x = mm \<and> mm \<noteq> None) rows) = None"
    using assms(2) by (intro fetchone_filter_None) auto
  then show ?thesis
    by (simp only: get_comparison_rows [OF assms(1)])
qed

lemma get_comparison_argument_order:
  assumes "store d" and "comparisons d = Some rows" and "x \<in> set rows"
    and "program x = Some pr" and "version x = Some ve"
    and "fragsize x = Some fs" and "maxmatch x = Some mm"
  shows "get_comparison d (Some (query_id x)) (Some (subject_id x))
           (Some pr) (Some ve) (Some fs) (Some mm) = Inr (Some x)"
    and "query_id x \<noteq> subject_id x \<Longrightarrow>
         get_comparison d (Some (subject_id x)) (Some (query_id x))
           (Some pr) (Some ve) (Some fs) (Some mm) \<noteq> Inr (Some x)"
proof -
  have dist: "distinct (map comparison_key rows)"
    using assms(1,2) by (auto simp: store_def split: option.splits)
  have "filter (\<lambda>y. Some (query_id y) = Some (query_id x)
                   \<and> Some (subject_id y) = Some (subject_id x)
                   \<and> program y = Some pr \<and> Some pr \<noteq> None \<and> version y = Some ve \<and> Some ve \<noteq> None
                   \<and> fragsize y = Some fs \<and> Some fs \<noteq> None
                   \<and> maxmatch y = Some mm \<and> Some mm \<noteq> None) rows
        = filter (\<lambda>y. comparison_key y = comparison_key x) rows"
  proof (rule filter_cong [OF refl])
    fix y
    assume "y \<in> set rows"
    then have "y = x" if "comparison_key y = comparison_key x"
      using distinct_map_eq [OF dist _ assms(3) that] by blast
    then show "(Some (query_id y) = Some (query_id x)
                   \<and> Some (subject_id y) = Some (subject_id x)
                   \<and> program y = Some pr \<and> Some pr \<noteq> None \<and> version y = Some ve \<and> Some ve \<noteq> None
                   \<and> fragsize y = Some fs \<and> Some fs \<noteq> None
                   \<and> maxmatch y = Some mm \<and> Some mm \<noteq> None)
               = (comparison_key y = comparison_key x)"
      using assms(4-7) by (auto simp: comparison_key_def)
  qed
  also have "\<dots> = [x]"
    using dist assms(3) by (rule filter_distinct_key)
  finally show "get_comparison d (Some (query_id x)) (Some (subject_id x))
           (Some pr) (Some ve) (Some fs) (Some mm) = Inr (Some x)"
    by (simp only: get_comparison_rows [OF assms(2)] fetchone_def list.case)
next
  assume ne: "query_id x \<noteq> subject_id x"
  show "get_comparison d (Some (subject_id x)) (Some (query_id x))
           (Some pr) (Some ve) (Some fs) (Some mm) \<noteq> Inr (Some x)"
  proof
    assume "get_comparison d (Some (subject_id x)) (Some (query_id x))
           (Some pr) (Some ve) (Some fs) (Some mm) = Inr (Some x)"
    then have "fetchone (filter (\<lambda>y. Some (query_id y) = Some (subject_id x)
                   \<and> Some (subject_id y) = Some (query_id x)
                   \<and> program y = Some pr \<and> Some pr \<noteq> None \<and> version y = Some ve \<and> Some ve \<noteq> None
                   \<and> fragsize y = Some fs \<and> Some fs \<noteq> None
                   \<and> maxmatch y = Some mm \<and> Some mm \<noteq> None) rows) = Some x"
      by (simp only: get_comparison_rows [OF assms(2)] sum.inject)
    from fetchone_filter_Some [OF this] ne show False
      by simp
  qed
qed

text \<open>
  A row that \<^verbatim>\<open>get_comparison\<close> returns is a stored row whose six key columns equal the
  six arguments; in particular it is never a row stored under another \<^verbatim>\<open>fragsize\<close>.
\<close>

lemma get_comparison_returns_key_row:
  assumes "comparisons d = Some rows" and "get_comparison d q s pr ve fs mm = Inr (Some x)"
  shows "x \<in> set rows \<and> Some (query_id x) = q \<and> Some (subject_id x) = s
         \<and> program x = pr \<and> version x = ve \<and> fragsize x = fs \<and> maxmatch x = mm"
proof -
  have "fetchone (filter (\<lambda>x. Some (query_id x) = q \<and> Some (subject_id x) = s
                                \<and> program x = pr \<and> pr \<noteq> None \<and> version x = ve \<and> ve \<noteq> None
                                \<and> fragsize x = fs \<and> fs \<noteq> None
                                \<and> maxmatch x = mm \<and> mm \<noteq> None) rows) = Some x"
    using assms(2) by (simp only: get_comparison_rows [OF assms(1)] sum.inject)
  from fetchone_filter_Some [OF this] show ?thesis
    by simp
qed

text \<open>
  Claim C1. The example store holds the row of \<open>self_comparison\<close>, made with a
  \<^verbatim>\<open>fragsize\<close> of 1020. \<^verbatim>\<open>get_comparison\<close> for the same genome pair, program, version
  and \<^verbatim>\<open>maxmatch\<close> with a \<^verbatim>\<open>fragsize\<close> of 500 finds nothing, so this is another
  comparison by its six key columns. Its row has the primary key of the stored row all
  the same, since \<^verbatim>\<open>PRIMARY KEY (query_id, subject_id)\<close> names two of the six columns,
  and a table that holds both rows breaks the constraints of the schema: the two rows do
  not coexist.
\<close>

theorem comparisons_primary_key_excludes_second_fragsize:
  "store example_store
   \<and> comparisons example_store = Some [nucmer_comparison, blast_comparison, self_comparison]
   \<and> get_comparison example_store (Some 2) (Some 2) (Some ''blastn'') (Some ''2.2.31'')
        (Some ''1020'') (Some ''0'') = Inr (Some self_comparison)
   \<and> get_comparison example_store (Some 2) (Some 2) (Some ''blastn'') (Some ''2.2.31'')
        (Some ''500'') (Some ''0'') = Inr None
   \<and> self_comparison_500 \<noteq> self_comparison
   \<and> comparison_key self_comparison_500 = comparison_key self_comparison
   \<and> \<not> store (example_store\<lparr>comparisons :=
                  Some [nucmer_comparison, blast_comparison, self_comparison,
                        self_comparison_500]\<rparr>)"
proof -
  have c: "comparisons example_store
             = Some [nucmer_comparison, blast_comparison, self_comparison]"
    by (simp add: example_store_def)
  have found: "get_comparison example_store (Some 2) (Some 2) (Some ''blastn'')
                 (Some ''2.2.31'') (Some ''1020'') (Some ''0'') = Inr (Some self_comparison)"
    and absent: "get_comparison example_store (Some 2) (Some 2) (Some ''blastn'')
                 (Some ''2.2.31'') (Some ''500'') (Some ''0'') = Inr None"
    by (simp_all add: get_comparison_rows [OF c] fetchone_def nucmer_comparison_def
        blast_comparison_def self_comparison_def)
  have key: "comparison_key self_comparison_500 = comparison_key self_comparison"
    and differ: "self_comparison_500 \<noteq> self_comparison"
    by (simp_all add: comparison_key_def self_comparison_500_def self_comparison_def)
  have "\<not> store (example_store\<lparr>comparisons :=
                  Some [nucmer_comparison, blast_comparison, self_comparison,
                        self_comparison_500]\<rparr>)"
    by (simp add: store_def example_store_def key)
  with store_example_store c found absent key differ show ?thesis
    by (intro conjI)
qed

text \<open>
  Claim C2. The example store holds the row of \<open>nucmer_comparison\<close>, in which
  \<^verbatim>\<open>fragsize\<close> and \<^verbatim>\<open>maxmatch\<close> are unset. \<^verbatim>\<open>get_comparison\<close> called with that row's
  \<^verbatim>\<open>query_id\<close>, \<^verbatim>\<open>subject_id\<close>, program and version, and with \<^verbatim>\<open>fragsize\<close> and
  \<^verbatim>\<open>maxmatch\<close> left at their default \<open>None\<close>, returns \<open>None\<close> and not the row.
\<close>

theorem get_comparison_unset_finds_nothing:
  "store example_store
   \<and> comparisons example_store = Some [nucmer_comparison, blast_comparison, self_comparison]
   \<and> query_id nucmer_comparison = 1 \<and> subject_id nucmer_comparison = 2
   \<and> program nucmer_comparison = Some ''nucmer'' \<and> version nucmer_comparison = Some ''3.1''
   \<and> fragsize nucmer_comparison = None \<and> maxmatch nucmer_comparison = None
   \<and> get_comparison example_store (Some 1) (Some 2) (Some ''nucmer'') (Some ''3.1'') None None
       = Inr None"
  by (simp add: store_example_store)
     (simp add: example_store_def nucmer_comparison_def blast_comparison_def
        self_comparison_def get_comparison_def SQL_GETCOMPARISON_def fetchone_def)

text \<open>
  Claim C10. The example store holds the row of \<open>blast_comparison\<close>, with \<^verbatim>\<open>query_id\<close> 2
  and \<^verbatim>\<open>subject_id\<close> 1, a \<^verbatim>\<open>fragsize\<close> and no \<^verbatim>\<open>maxmatch\<close>. \<^verbatim>\<open>get_comparison\<close> called
  with 2 as its first genome argument, 1 as its second and the program, version,
  \<^verbatim>\<open>fragsize\<close> and \<^verbatim>\<open>maxmatch\<close> stored in the row returns \<open>None\<close> and not the row.
\<close>

theorem get_comparison_misses_stored_row:
  "store example_store
   \<and> comparisons example_store = Some [nucmer_comparison, blast_comparison, self_comparison]
   \<and> query_id blast_comparison = 2 \<and> subject_id blast_comparison = 1
   \<and> program blast_comparison = Some ''blastn'' \<and> version blast_comparison = Some ''2.2.31''
   \<and> fragsize blast_comparison = Some ''1020'' \<and> maxmatch blast_comparison = None
   \<and> get_comparison example_store (Some 2) (Some 1) (Some ''blastn'') (Some ''2.2.31'')
        (Some ''1020'') None = Inr None"
  by (simp add: store_example_store)
     (simp add: example_store_def nucmer_comparison_def blast_comparison_def
        self_comparison_def get_comparison_def SQL_GETCOMPARISON_def fetchone_def)

section \<open>Runs and their genomes\<close>










text \<open>
  An association that is already stored is rejected, and one that is not stored is
  inserted as a single row, whether or not the two tables hold the rows it refers to.
\<close>

lemma add_genome_to_run_duplicate:
  assumes "runs_genomes d = Some rows" and "x \<in> set rows"
  shows "add_genome_to_run d (Some (rg_run_id x)) (Some (rg_genome_id x)) = Inl IntegrityError"
  using assms
  by (auto simp: add_genome_to_run_def SQL_ADDRUNGENOME_def run_genome_key_def image_iff)

lemma add_genome_to_run_inserts_one_row:
  assumes "runs_genomes d = Some rows"
    and "\<forall>x \<in> set rows. \<not> (rg_run_id x = r \<and> rg_genome_id x = g)"
  shows "add_genome_to_run d (Some r) (Some g)
           = Inr (d\<lparr>runs_genomes :=
                     Some (rows @ [\<lparr>rowid = next_rowid (map rowid rows), rg_run_id = r,
                                    rg_genome_id = g\<rparr>])\<rparr>,
                  next_rowid (map rowid rows))"
  using assms
  by (auto simp: add_genome_to_run_def SQL_ADDRUNGENOME_def foreign_keys_def Let_def
      run_genome_key_def)

text \<open>
  Claim C5. On a fresh store, which holds no run and no genome, \<^verbatim>\<open>add_genome_to_run\<close>
  with a \<^verbatim>\<open>run_id\<close> of 7 and a \<^verbatim>\<open>genome_id\<close> of 9 raises nothing: it inserts the
  association row and returns its \<open>rowid\<close>.
\<close>

theorem add_genome_to_run_accepts_absent_ids:
  "create_db example_store = Inr (empty_db :: int db)
   \<and> runs (empty_db :: int db) = Some [] \<and> genomes (empty_db :: int db) = Some []
   \<and> add_genome_to_run (empty_db :: int db) (Some 7) (Some 9)
       = Inr (empty_db\<lparr>runs_genomes := Some [\<lparr>rowid = 1, rg_run_id = 7, rg_genome_id = 9\<rparr>]\<rparr>, 1)"
  by (simp add: create_db_empty)
     (simp add: empty_db_def add_genome_to_run_def SQL_ADDRUNGENOME_def foreign_keys_def
        next_rowid_def)

end
